theory Spec2Isabelle
  imports Complex_Main "HOL-Library.Multiset" "HOL-Library.Sublist"
begin

section \<open>Python values shared by both agents\<close>

text \<open>
  The exceptions the two agents can meet. The parser has no handler of its own; the
  forecaster's public functions catch every \<open>Exception\<close>.
\<close>

datatype error = IndexError | ValueError | OverflowError | KeyError | TypeError

text \<open>
  Python floats are modelled as exact reals. The two places where the forecaster can
  produce an infinity or a NaN (a division by a zero day gap, a standard deviation of a
  single interval) are written out where they occur.
\<close>

section \<open>Characters and strings (\<open>medicine_parser.py\<close>)\<close>

text \<open>
  A message is a Python \<open>str\<close>. The model is exact for ASCII text: the character classes
  below are those of Python 3 on code points below 128 (\<open>str.isspace\<close> and the regex
  class \<open>\s\<close> include the separators 0x1C to 0x1F; \<open>\w\<close> is letters, digits and the
  underscore; \<open>\d\<close> is 0 to 9). A character outside ASCII is treated as a caseless symbol.
\<close>

definition code :: "char \<Rightarrow> nat" where
  "code c = of_char c"

definition is_digit :: "char \<Rightarrow> bool" where
  "is_digit c = (48 \<le> code c \<and> code c \<le> 57)"

definition is_upper :: "char \<Rightarrow> bool" where
  "is_upper c = (65 \<le> code c \<and> code c \<le> 90)"

definition is_lower :: "char \<Rightarrow> bool" where
  "is_lower c = (97 \<le> code c \<and> code c \<le> 122)"

definition is_alpha :: "char \<Rightarrow> bool" where
  "is_alpha c = (is_upper c \<or> is_lower c)"

definition is_word :: "char \<Rightarrow> bool" where
  "is_word c = (is_alpha c \<or> is_digit c \<or> code c = 95)"

definition is_space :: "char \<Rightarrow> bool" where
  "is_space c = ((9 \<le> code c \<and> code c \<le> 13) \<or> (28 \<le> code c \<and> code c \<le> 32))"

definition lower_char :: "char \<Rightarrow> char" where
  "lower_char c = (if is_upper c then char_of (code c + 32) else c)"

definition upper_char :: "char \<Rightarrow> char" where
  "upper_char c = (if is_lower c then char_of (code c - 32) else c)"

definition lower :: "string \<Rightarrow> string" where
  "lower s = map lower_char s"

text \<open>\<open>needle in hay\<close>: substring containment.\<close>

fun contains :: "string \<Rightarrow> string \<Rightarrow> bool" where
  "contains needle [] = (needle = [])"
| "contains needle (c # cs) = (if prefix needle (c # cs) then True else contains needle cs)"

text \<open>\<open>any(k in text for k in keys)\<close>, evaluated left to right.\<close>

fun any_in :: "string list \<Rightarrow> string \<Rightarrow> bool" where
  "any_in [] text = False"
| "any_in (k # ks) text = (if contains k text then True else any_in ks text)"

definition strip :: "string \<Rightarrow> string" where
  "strip s = rev (dropWhile is_space (rev (dropWhile is_space s)))"

text \<open>\<open>str.split()\<close> with no argument: the maximal runs of non-whitespace.\<close>

fun split_ws :: "string \<Rightarrow> string \<Rightarrow> string list" where
  "split_ws cur [] = (if cur = [] then [] else [rev cur])"
| "split_ws cur (c # cs) =
     (if is_space c then (if cur = [] then split_ws [] cs else rev cur # split_ws [] cs)
      else split_ws (c # cur) cs)"

definition split :: "string \<Rightarrow> string list" where
  "split s = split_ws [] s"

text \<open>
  \<open>str.title()\<close>: a letter is upper-cased when the character before it is not a letter and
  lower-cased otherwise; other characters are kept.
\<close>

fun title_from :: "bool \<Rightarrow> string \<Rightarrow> string" where
  "title_from prev [] = []"
| "title_from prev (c # cs) =
     (if is_alpha c then (if prev then lower_char c else upper_char c) # title_from True cs
      else c # title_from False cs)"

definition title :: "string \<Rightarrow> string" where
  "title s = title_from False s"

text \<open>
  \<open>int(s)\<close> on a string of decimal digits. CPython refuses a decimal string of more than
  4300 digits with \<open>ValueError\<close> (\<open>sys.int_info.default_max_str_digits\<close>).
\<close>

definition digit_value :: "char \<Rightarrow> nat" where
  "digit_value c = code c - 48"

definition digits_value :: "string \<Rightarrow> nat" where
  "digits_value s = foldl (\<lambda>acc c. 10 * acc + digit_value c) 0 s"

definition int_max_str_digits :: nat where
  "int_max_str_digits = 4300"

definition py_int :: "string \<Rightarrow> error + int" where
  "py_int s = (if int_max_str_digits < length s then Inl ValueError
               else Inr (int (digits_value s)))"

text \<open>\<open>str(n)\<close> for a non-negative integer, as the f-strings of the response need it.\<close>

function str_nat :: "nat \<Rightarrow> string" where
  "str_nat n = (if n < 10 then [char_of (48 + n)]
                else str_nat (n div 10) @ [char_of (48 + n mod 10)])"
  by pat_completeness auto
termination
  by (relation "measure (\<lambda>n. n)") auto

declare str_nat.simps [simp del]

definition str_int :: "int \<Rightarrow> string" where
  "str_int i = (if i < 0 then CHR ''-'' # str_nat (nat (- i)) else str_nat (nat i))"

section \<open>The regular expressions of the parser\<close>

text \<open>
  Each pattern is modelled by a function that tries it at one position, and a scan that
  tries the positions from left to right, as \<open>search\<close>, \<open>findall\<close> and \<open>split\<close> do.
  In every pattern here a greedy run (\<open>\d+\<close>, \<open>\s*\<close>) is followed by something that
  none of the run's own characters can start, so backtracking into a run never finds a
  match that the maximal run misses; the functions take the maximal runs.

  An alternative of a group is a literal with an optional trailing \<open>s\<close>
  (\<open>units?\<close>, \<open>pieces?\<close>, \<open>tabs?\<close>, \<open>caps?\<close>); with \<open>re.IGNORECASE\<close> it is compared
  with the lower-cased text. The result is the text it matched.
\<close>

type_synonym alt = "string \<times> bool"

definition match_alt :: "alt \<Rightarrow> string \<Rightarrow> string option" where
  "match_alt a text =
     (let lit = fst a; n = length lit in
      if lower (take n text) = lit \<and> n \<le> length text then
        (case drop n text of
           c # _ \<Rightarrow> if snd a \<and> lower_char c = CHR ''s'' then Some (take (Suc n) text)
                    else Some (take n text)
         | [] \<Rightarrow> Some (take n text))
      else None)"

fun match_alts :: "alt list \<Rightarrow> string \<Rightarrow> string option" where
  "match_alts [] text = None"
| "match_alts (a # as) text =
     (case match_alt a text of Some m \<Rightarrow> Some m | None \<Rightarrow> match_alts as text)"

text \<open>\<open>pattern.search(text)\<close> for a pattern that does not look behind its start.\<close>

fun re_search :: "(string \<Rightarrow> 'a option) \<Rightarrow> string \<Rightarrow> 'a option" where
  "re_search m [] = m []"
| "re_search m (c # cs) = (case m (c # cs) of Some r \<Rightarrow> Some r | None \<Rightarrow> re_search m cs)"

text \<open>
  \<open>dosage_pattern = (\d+(?:\.\d+)?)\s*(mg|g|ml|mcg|iu|units?)\<close>, ignoring case.
  The result is the two groups.
\<close>

definition dosage_units :: "alt list" where
  "dosage_units = [(''mg'', False), (''g'', False), (''ml'', False), (''mcg'', False),
                   (''iu'', False), (''unit'', True)]"

definition dosage_at :: "string \<Rightarrow> (string \<times> string) option" where
  "dosage_at text =
     (let ds = takeWhile is_digit text; r1 = dropWhile is_digit text in
      if ds = [] then None
      else
        let frac = (case r1 of
                      c # r \<Rightarrow> if c = CHR ''.'' \<and> takeWhile is_digit r \<noteq> []
                               then c # takeWhile is_digit r else []
                    | [] \<Rightarrow> []);
            r2 = drop (length frac) r1;
            r3 = dropWhile is_space r2
        in (case match_alts dosage_units r3 of
              None \<Rightarrow> None
            | Some u \<Rightarrow> Some (ds @ frac, u)))"

text \<open>
  \<open>quantity_pattern = (\d+)\s*(tablet|capsule|pill|strip|bottle|pack|box|count|pieces?|tabs?|caps?)\<close>,
  ignoring case. The result is group 1.
\<close>

definition quantity_units :: "alt list" where
  "quantity_units = [(''tablet'', False), (''capsule'', False), (''pill'', False),
                     (''strip'', False), (''bottle'', False), (''pack'', False),
                     (''box'', False), (''count'', False), (''piece'', True),
                     (''tab'', True), (''cap'', True)]"

definition quantity_at :: "string \<Rightarrow> string option" where
  "quantity_at text =
     (let ds = takeWhile is_digit text; r = dropWhile is_space (dropWhile is_digit text) in
      if ds = [] then None
      else (case match_alts quantity_units r of None \<Rightarrow> None | Some u \<Rightarrow> Some ds))"

text \<open>
  \<open>simple_quantity = \b(\d+)\s*(?:of|x|..)?\s*(?=tablet|capsule|pill|tab|cap)\<close>, ignoring
  case. The third alternative of the optional group is two characters outside ASCII and
  matches no ASCII text. The word boundary needs the character before the position.
\<close>

definition simple_heads :: "alt list" where
  "simple_heads = [(''tablet'', False), (''capsule'', False), (''pill'', False),
                   (''tab'', False), (''cap'', False)]"

definition simple_links :: "alt list" where
  "simple_links = [(''of'', False), (''x'', False)]"

definition boundary_before :: "char option \<Rightarrow> bool" where
  "boundary_before prev = (case prev of None \<Rightarrow> True | Some p \<Rightarrow> \<not> is_word p)"

definition boundary_after :: "string \<Rightarrow> bool" where
  "boundary_after rest = (case rest of [] \<Rightarrow> True | c # _ \<Rightarrow> \<not> is_word c)"

definition simple_quantity_at :: "char option \<Rightarrow> string \<Rightarrow> string option" where
  "simple_quantity_at prev text =
     (let ds = takeWhile is_digit text; r1 = dropWhile is_space (dropWhile is_digit text) in
      if ds = [] \<or> \<not> boundary_before prev then None
      else
        let r2 = (case match_alts simple_links r1 of
                    None \<Rightarrow> r1 | Some l \<Rightarrow> drop (length l) r1);
            r3 = dropWhile is_space r2
        in (case match_alts simple_heads r3 of None \<Rightarrow> None | Some u \<Rightarrow> Some ds))"

fun simple_quantity_search :: "char option \<Rightarrow> string \<Rightarrow> string option" where
  "simple_quantity_search prev [] = None"
| "simple_quantity_search prev (c # cs) =
     (case simple_quantity_at prev (c # cs) of
        Some r \<Rightarrow> Some r
      | None \<Rightarrow> simple_quantity_search (Some c) cs)"

text \<open>
  \<open>re.findall(r'\b(\d+)\b', text)\<close>: the digit runs that are whole words. Inside a run the
  boundary fails, so trying every position finds each run once.
\<close>

fun standalone_numbers :: "char option \<Rightarrow> string \<Rightarrow> string list" where
  "standalone_numbers prev [] = []"
| "standalone_numbers prev (c # cs) =
     (if is_digit c \<and> boundary_before prev \<and> boundary_after (dropWhile is_digit cs)
      then (c # takeWhile is_digit cs) # standalone_numbers (Some c) cs
      else standalone_numbers (Some c) cs)"

text \<open>
  \<open>re.split(r'\band\b|\balso\b|,\s*(?=\w)', message)\<close> (case-sensitive).
  \<open>separator_at\<close> is the length of the separator that matches at a position, if any;
  \<open>re_split\<close> carries the character before the position and the number of characters of
  a matched separator still to skip.
\<close>

definition separator_at :: "char option \<Rightarrow> string \<Rightarrow> nat option" where
  "separator_at prev text =
     (if prefix ''and'' text \<and> boundary_before prev \<and> boundary_after (drop 3 text)
        then Some 3
      else if prefix ''also'' text \<and> boundary_before prev \<and> boundary_after (drop 4 text)
        then Some 4
      else (case text of
              c # cs \<Rightarrow>
                if c = CHR '','' then
                  (case dropWhile is_space cs of
                     d # _ \<Rightarrow> if is_word d then Some (Suc (length (takeWhile is_space cs)))
                              else None
                   | [] \<Rightarrow> None)
                else None
            | [] \<Rightarrow> None))"

fun re_split :: "char option \<Rightarrow> nat \<Rightarrow> string \<Rightarrow> string list" where
  "re_split prev k [] = [[]]"
| "re_split prev k (c # cs) =
     (if 0 < k then re_split (Some c) (k - 1) cs
      else (case separator_at prev (c # cs) of
              Some n \<Rightarrow> [] # re_split (Some c) (n - 1) cs
            | None \<Rightarrow> (case re_split (Some c) 0 cs of
                         s # ss \<Rightarrow> (c # s) # ss
                       | [] \<Rightarrow> [[c]])))"

section \<open>The order text parser (\<open>MedicineParser\<close>)\<close>

text \<open>\<open>COMMON_MEDICINES\<close>: a dictionary, iterated in insertion order.\<close>

definition COMMON_MEDICINES :: "(string \<times> string list) list" where
  "COMMON_MEDICINES =
    [(''paracetamol'', [''paracetamol'', ''tylenol'', ''acetaminophen'', ''paracitamol'']),
     (''ibuprofen'', [''ibuprofen'', ''advil'', ''motrin'', ''brufen'']),
     (''aspirin'', [''aspirin'', ''aspirine'', ''acetylsalicylic'']),
     (''amoxicillin'', [''amoxicillin'', ''amoxycillin'', ''amoxy'']),
     (''metformin'', [''metformin'', ''glucophage'']),
     (''omeprazole'', [''omeprazole'', ''prilosec'']),
     (''lisinopril'', [''lisinopril'', ''prinivil'', ''zestril'']),
     (''atorvastatin'', [''atorvastatin'', ''lipitor'']),
     (''amlodipine'', [''amlodipine'', ''norvasc'']),
     (''metoprolol'', [''metoprolol'', ''lopressor'']),
     (''losartan'', [''losartan'', ''cozaar'']),
     (''gabapentin'', [''gabapentin'', ''neurontin'']),
     (''hydrochlorothiazide'', [''hydrochlorothiazide'', ''hctz'']),
     (''sertraline'', [''sertraline'', ''zoloft'']),
     (''simvastatin'', [''simvastatin'', ''zocor'']),
     (''vitamin d'', [''vitamin d'', ''vit d'', ''cholecalciferol'']),
     (''vitamin c'', [''vitamin c'', ''vit c'', ''ascorbic acid'']),
     (''insulin'', [''insulin'', ''humalog'', ''novolog'']),
     (''levothyroxine'', [''levothyroxine'', ''synthroid'']),
     (''clopidogrel'', [''clopidogrel'', ''plavix''])]"

record medicine_request =
  name :: string
  dosage :: "string option"
  quantity :: int
  form :: string
  confidence :: real

text \<open>
  The dictionary \<open>parse_message\<close> returns. Its key \<open>confidence\<close> is the field
  \<open>overall_confidence\<close> here, the name the source gives the value.
\<close>

record parse_result =
  medicines :: "medicine_request list"
  requires_clarification :: bool
  next_action :: string
  overall_confidence :: real
  response :: string

text \<open>
  \<open>_extract_medicine_name\<close>. The first loop returns the first standard name one of
  whose variants occurs in the lower-cased text.
\<close>

fun known_medicine :: "(string \<times> string list) list \<Rightarrow> string \<Rightarrow> string option" where
  "known_medicine [] text_lower = None"
| "known_medicine (entry # rest) text_lower =
     (if any_in (snd entry) text_lower then Some (fst entry)
      else known_medicine rest text_lower)"

text \<open>
  The second loop, over the words and their successors: a word is taken when its first
  character is upper case, or when the next word contains \<open>mg\<close>, \<open>g\<close> or \<open>ml\<close>; it is
  cleaned by \<open>re.sub(r'[^\w\s]', '', word)\<close> and returned lower-cased if more than two
  characters remain. \<open>word[0]\<close> raises \<open>IndexError\<close> on an empty word.
\<close>

definition dose_hints :: "string list" where
  "dose_hints = [''mg'', ''g'', ''ml'']"

fun guess_name :: "string list \<Rightarrow> error + string option" where
  "guess_name [] = Inr None"
| "guess_name (word # rest) =
     (case word of
        [] \<Rightarrow> Inl IndexError
      | c # _ \<Rightarrow>
          if (if is_upper c then True
              else (case rest of [] \<Rightarrow> False | nxt # _ \<Rightarrow> any_in dose_hints (lower nxt)))
          then
            (let clean_word = filter (\<lambda>x. is_word x \<or> is_space x) word in
             if 2 < length clean_word then Inr (Some (lower clean_word))
             else guess_name rest)
          else guess_name rest)"

definition extract_medicine_name :: "string \<Rightarrow> error + string option" where
  "extract_medicine_name text =
     (case known_medicine COMMON_MEDICINES (lower text) of
        Some standard_name \<Rightarrow> Inr (Some standard_name)
      | None \<Rightarrow> guess_name (split text))"

text \<open>\<open>_extract_dosage\<close>: the amount followed by the lower-cased unit.\<close>

definition extract_dosage :: "string \<Rightarrow> string option" where
  "extract_dosage text =
     (case re_search dosage_at text of
        Some (amount, unit) \<Rightarrow> Some (amount @ lower unit)
      | None \<Rightarrow> None)"

text \<open>
  \<open>_extract_quantity\<close>: the unit-anchored pattern, then the simple pattern, then the
  largest standalone number between 1 and 1000, then the default 30.
  \<open>sorted(numbers, key=int, reverse=True)\<close> converts every number before the loop starts.
\<close>

fun map_result :: "('a \<Rightarrow> error + 'b) \<Rightarrow> 'a list \<Rightarrow> error + 'b list" where
  "map_result f [] = Inr []"
| "map_result f (x # xs) =
     (case f x of
        Inl e \<Rightarrow> Inl e
      | Inr y \<Rightarrow> (case map_result f xs of Inl e \<Rightarrow> Inl e | Inr ys \<Rightarrow> Inr (y # ys)))"

definition extract_quantity :: "string \<Rightarrow> error + int" where
  "extract_quantity text =
     (case re_search quantity_at text of
        Some ds \<Rightarrow> py_int ds
      | None \<Rightarrow>
         (case simple_quantity_search None text of
            Some ds \<Rightarrow> py_int ds
          | None \<Rightarrow>
             (case map_result py_int (standalone_numbers None text) of
                Inl e \<Rightarrow> Inl e
              | Inr nums \<Rightarrow>
                 (case find (\<lambda>num. 1 \<le> num \<and> num \<le> 1000) (rev (sort nums)) of
                    Some num \<Rightarrow> Inr num
                  | None \<Rightarrow> Inr 30))))"

text \<open>
  \<open>_extract_form\<close>: the first form one of whose keywords occurs, default tablet. The
  loop over the table is the one of \<open>known_medicine\<close>.
\<close>

definition forms :: "(string \<times> string list) list" where
  "forms =
    [(''tablet'', [''tablet'', ''tab'', ''pill'']),
     (''capsule'', [''capsule'', ''cap'']),
     (''syrup'', [''syrup'', ''liquid'', ''solution'']),
     (''injection'', [''injection'', ''inject'', ''vial'']),
     (''cream'', [''cream'', ''ointment'', ''gel'']),
     (''drops'', [''drops'', ''eye drops'', ''ear drops'']),
     (''inhaler'', [''inhaler'', ''puff'']),
     (''patch'', [''patch'', ''transdermal''])]"

definition extract_form :: "string \<Rightarrow> string" where
  "extract_form text =
     (case known_medicine forms (lower text) of Some form_name \<Rightarrow> form_name
      | None \<Rightarrow> ''tablet'')"

text \<open>\<open>_calculate_confidence\<close>; a string is true when it is not empty.\<close>

definition calculate_confidence :: "string option \<Rightarrow> string option \<Rightarrow> int \<Rightarrow> real" where
  "calculate_confidence medicine_name dose qty =
     (let s1 = (case medicine_name of
                  None \<Rightarrow> 0
                | Some n \<Rightarrow> if n = [] then 0
                            else (if n \<in> set (map fst COMMON_MEDICINES) then 0.4 + 0.2 else 0.4));
          s2 = (if dose \<noteq> None \<and> dose \<noteq> Some [] then s1 + 0.2 else s1);
          s3 = (if qty \<noteq> 0 \<and> qty \<noteq> 30 then s2 + 0.2 else s2)
      in min s3 1)"

text \<open>\<open>_generate_response\<close>.\<close>

fun join :: "string \<Rightarrow> string list \<Rightarrow> string" where
  "join sep [] = []"
| "join sep [p] = p"
| "join sep (p # q # ps) = p @ sep @ join sep (q # ps)"

definition item_parts :: "string \<Rightarrow> string \<Rightarrow> medicine_request \<Rightarrow> string list" where
  "item_parts head dash med =
     [head @ name med]
     @ (case dosage med of None \<Rightarrow> [] | Some d \<Rightarrow> if d = [] then [] else [d])
     @ [dash @ str_int (quantity med) @ '' '' @ form med @ ''s'']"

fun numbered_lines :: "nat \<Rightarrow> medicine_request list \<Rightarrow> string" where
  "numbered_lines i [] = []"
| "numbered_lines i (med # meds) =
     join '' '' (item_parts (str_nat i @ ''. '') ''- '' med) @ [CHR 0x0A]
     @ numbered_lines (Suc i) meds"

definition generate_response :: "medicine_request list \<Rightarrow> bool \<Rightarrow> string" where
  "generate_response meds clarify =
     (if clarify then
        ''I'd be happy to help you order medicines. Could you please tell me which medicine you need? For example, 'I need Paracetamol 500mg, 30 tablets'.''
      else
        (case meds of
           [med] \<Rightarrow>
             join '' '' (item_parts ''I'll add '' [] med) @ '' to your cart. ''
             @ (if confidence med < 0.7 then ''Is this correct, or would you like to modify it?''
                else ''Would you like to add anything else or proceed to checkout?'')
         | _ \<Rightarrow>
             ''I'll add these medicines to your cart:'' @ [CHR 0x0A]
             @ numbered_lines 1 meds
             @ [CHR 0x0A] @ ''Would you like to add anything else or proceed to checkout?''))"

text \<open>
  \<open>parse_message\<close>. The loop over the segments stops at the first exception, which
  nothing in this class catches.
\<close>

definition greetings :: "string list" where
  "greetings = [''hello'', ''hi'', ''hey'', ''good morning'', ''good afternoon'',
                ''good evening'']"

definition greeting_response :: string where
  "greeting_response =
     ''Hello! I'm here to help you order medicines. You can tell me what medicine you need, like 'I need Paracetamol 500mg, 30 tablets' or 'I want Aspirin'.''"

fun parse_segments :: "string list \<Rightarrow> error + medicine_request list" where
  "parse_segments [] = Inr []"
| "parse_segments (seg # rest) =
     (let segment = strip seg in
      if length segment < 3 then parse_segments rest
      else
        (case extract_medicine_name segment of
           Inl e \<Rightarrow> Inl e
         | Inr None \<Rightarrow> parse_segments rest
         | Inr (Some medicine_name) \<Rightarrow>
             if medicine_name = [] then parse_segments rest
             else
               (let dose = extract_dosage segment in
                case extract_quantity segment of
                  Inl e \<Rightarrow> Inl e
                | Inr qty \<Rightarrow>
                    (case parse_segments rest of
                       Inl e \<Rightarrow> Inl e
                     | Inr meds \<Rightarrow>
                         Inr (\<lparr>name = title medicine_name,
                               dosage = dose,
                               quantity = qty,
                               form = extract_form segment,
                               confidence =
                                 calculate_confidence (Some medicine_name) dose qty\<rparr>
                              # meds)))))"

definition is_greeting :: "string \<Rightarrow> bool" where
  "is_greeting message_lower =
     (if any_in greetings message_lower
      then \<not> any_in (concat (map snd COMMON_MEDICINES)) message_lower
      else False)"

definition parse_message :: "string \<Rightarrow> error + parse_result" where
  "parse_message message =
     (if is_greeting (lower message) then
        Inr \<lparr>medicines = [], requires_clarification = False, next_action = ''greet'',
             overall_confidence = 1, response = greeting_response\<rparr>
      else
        (case parse_segments (re_split None 0 message) of
           Inl e \<Rightarrow> Inl e
         | Inr meds \<Rightarrow>
             Inr \<lparr>medicines = meds,
                  requires_clarification = (length meds = 0),
                  next_action = (if meds \<noteq> [] then ''confirm'' else ''ask_details''),
                  overall_confidence =
                    (if meds \<noteq> [] then sum_list (map confidence meds) / real (length meds)
                     else 0),
                  response = generate_response meds (length meds = 0)\<rparr>))"

section \<open>The depletion forecaster (\<open>ForecastAgent\<close>)\<close>

text \<open>
  An entry of the order history. \<open>order_date\<close> is the instant \<open>pd.to_datetime\<close> makes of
  the entry's date: a count of nanoseconds, with midnight of the day of proleptic
  Gregorian ordinal \<open>d\<close> at \<open>d * ns_per_day\<close>. A calendar date is a midnight. The keys
  \<open>quantity\<close> and \<open>medicine_name\<close> of the source are the fields \<open>order_quantity\<close> and
  \<open>order_medicine_name\<close>; an entry may lack the name.
\<close>

record order =
  order_date :: int
  order_quantity :: int
  order_medicine_name :: "string option"

definition ns_per_day :: int where
  "ns_per_day = 86400000000000"

text \<open>\<open>Timedelta.days\<close> and \<open>Timestamp.date()\<close> (as an ordinal): whole days, rounded down.\<close>

definition td_days :: "int \<Rightarrow> int" where
  "td_days delta = delta div ns_per_day"

definition to_date :: "int \<Rightarrow> int" where
  "to_date ts = ts div ns_per_day"

definition at_midnight :: "int \<Rightarrow> int" where
  "at_midnight ordinal = ordinal * ns_per_day"

text \<open>
  A float64 as the forecaster meets it: an exact real, an infinity or NaN. Quantities
  are integers, as the order model declares them.
  \<open>float_div\<close> is the division of two columns of numbers (no exception on zero).
\<close>

datatype pyfloat = Fin real | PosInf | NegInf | NaN

definition float_div :: "real \<Rightarrow> real \<Rightarrow> pyfloat" where
  "float_div a b =
     (if b \<noteq> 0 then Fin (a / b)
      else if 0 < a then PosInf else if a < 0 then NegInf else NaN)"

fun float_add :: "pyfloat \<Rightarrow> pyfloat \<Rightarrow> pyfloat" where
  "float_add (Fin a) (Fin b) = Fin (a + b)"
| "float_add NaN y = NaN"
| "float_add x NaN = NaN"
| "float_add PosInf NegInf = NaN"
| "float_add NegInf PosInf = NaN"
| "float_add PosInf y = PosInf"
| "float_add x PosInf = PosInf"
| "float_add NegInf y = NegInf"
| "float_add x NegInf = NegInf"

fun float_scale :: "pyfloat \<Rightarrow> real \<Rightarrow> pyfloat" where
  "float_scale (Fin a) n = float_div a n"
| "float_scale x n = x"

definition float_mean :: "pyfloat list \<Rightarrow> pyfloat" where
  "float_mean xs = float_scale (foldl float_add (Fin 0) xs) (real (length xs))"

fun is_positive :: "pyfloat \<Rightarrow> bool" where
  "is_positive (Fin a) = (0 < a)"
| "is_positive PosInf = True"
| "is_positive x = False"

fun not_positive :: "pyfloat \<Rightarrow> bool" where
  "not_positive (Fin a) = (a \<le> 0)"
| "not_positive NegInf = True"
| "not_positive x = False"

text \<open>\<open>quantity / rate\<close>, a number divided by a float64.\<close>

fun divide_by :: "real \<Rightarrow> pyfloat \<Rightarrow> pyfloat" where
  "divide_by q (Fin r) = float_div q r"
| "divide_by q NaN = NaN"
| "divide_by q x = Fin 0"

text \<open>Rounding to the nearest integer, ties to even; \<open>round(x, 2)\<close>; \<open>int(x)\<close>.\<close>

definition round_half_even :: "real \<Rightarrow> int" where
  "round_half_even x =
     (let f = \<lfloor>x\<rfloor>; d = x - of_int f in
      if d < 1 / 2 then f else if 1 / 2 < d then f + 1
      else if even f then f else f + 1)"

definition round2 :: "real \<Rightarrow> real" where
  "round2 x = of_int (round_half_even (x * 100)) / 100"

fun float_round2 :: "pyfloat \<Rightarrow> pyfloat" where
  "float_round2 (Fin a) = Fin (round2 a)"
| "float_round2 x = x"

definition int_of_float :: "real \<Rightarrow> int" where
  "int_of_float x = (if 0 \<le> x then \<lfloor>x\<rfloor> else \<lceil>x\<rceil>)"

text \<open>
  \<open>timedelta(days=x)\<close> keeps the duration rounded to the microsecond, ties to even, and
  refuses more than 999999999 days; adding it to a \<open>date\<close> uses its whole days, rounded
  down, and refuses a result outside the years 1 to 9999.
\<close>

definition us_per_day :: int where
  "us_per_day = 86400000000"

definition whole_days :: "real \<Rightarrow> int" where
  "whole_days d = round_half_even (d * of_int us_per_day) div us_per_day"

definition timedelta_days :: "pyfloat \<Rightarrow> error + int" where
  "timedelta_days x =
     (case x of
        Fin d \<Rightarrow>
          (let n = whole_days d in
           if 999999999 < \<bar>n\<bar> then Inl OverflowError else Inr n)
      | NaN \<Rightarrow> Inl ValueError
      | _ \<Rightarrow> Inl OverflowError)"

definition max_ordinal :: int where
  "max_ordinal = 3652059"

definition date_add :: "int \<Rightarrow> int \<Rightarrow> error + int" where
  "date_add d n = (if 1 \<le> d + n \<and> d + n \<le> max_ordinal then Inr (d + n)
                   else Inl OverflowError)"

text \<open>The settings the forecaster reads, with the defaults of \<open>core/config.py\<close>.\<close>

record settings =
  PREDICTION_MIN_ORDERS :: int
  PREDICTION_CONFIDENCE_THRESHOLD :: real

definition default_settings :: settings where
  "default_settings =
     \<lparr>PREDICTION_MIN_ORDERS = 3, PREDICTION_CONFIDENCE_THRESHOLD = 0.7\<rparr>"

datatype PredictionConfidence = LOW | MEDIUM | HIGH

text \<open>
  The dictionary \<open>predict_depletion\<close> returns. Its key \<open>confidence\<close> is the field
  \<open>confidence_level\<close>. \<open>medicine_name\<close> is \<open>None\<close> when the last row has no name while
  another row has one (pandas fills the cell with NaN).
\<close>

record prediction =
  user_id :: string
  medicine_id :: string
  medicine_name :: "string option"
  average_consumption_rate :: pyfloat
  last_order_date :: int
  last_order_quantity :: int
  predicted_depletion_date :: int
  suggested_reorder_date :: int
  suggested_quantity :: int
  confidence_level :: PredictionConfidence
  confidence_score :: real
  historical_data :: "order list"

text \<open>
  \<open>df['order_date'].diff().dt.days\<close> without its first (missing) value: the whole days
  between each row and the row before it.
\<close>

fun days_since_last :: "order list \<Rightarrow> int list" where
  "days_since_last (a # b # rest) =
     td_days (order_date b - order_date a) # days_since_last (b # rest)"
| "days_since_last rest = []"

text \<open>
  \<open>df['quantity'].shift(1) / df['days_since_last']\<close> without its first (missing) value.
\<close>

fun daily_consumption :: "order list \<Rightarrow> pyfloat list" where
  "daily_consumption (a # b # rest) =
     float_div (of_int (order_quantity a)) (of_int (td_days (order_date b - order_date a)))
     # daily_consumption (b # rest)"
| "daily_consumption rest = []"

text \<open>
  \<open>_calculate_consumption_rate\<close>: \<open>dropna()\<close> removes NaN, the comparison keeps what is
  greater than zero, and the mean is taken of what is left.
\<close>

definition calculate_consumption_rate :: "order list \<Rightarrow> pyfloat" where
  "calculate_consumption_rate df =
     (if length df < 2 then Fin 0
      else
        (let valid_rates = filter is_positive (filter (\<lambda>x. x \<noteq> NaN) (daily_consumption df)) in
         if length valid_rates = 0 then Fin 0 else float_mean valid_rates))"

text \<open>
  \<open>_calculate_confidence\<close>. The standard deviation is the sample one (\<open>ddof = 1\<close>), NaN
  for a single interval; \<open>max(0.0, min(1.0, 1.0 - cv))\<close> is then 1.0, since every
  comparison with NaN is false.
\<close>

definition mean :: "int list \<Rightarrow> real" where
  "mean xs = of_int (sum_list xs) / real (length xs)"

definition sample_std :: "int list \<Rightarrow> real option" where
  "sample_std xs =
     (if length xs < 2 then None
      else Some (sqrt (sum_list (map (\<lambda>x. (of_int x - mean xs)\<^sup>2) xs)
                       / real (length xs - 1))))"

definition forecast_confidence :: "order list \<Rightarrow> real" where
  "forecast_confidence df =
     (if length df < 2 then 0.5
      else
        (let intervals = days_since_last df in
         if length intervals = 0 then 0.5
         else
           (let mean_interval = mean intervals; std_interval = sample_std intervals in
            if 0 < mean_interval then
              (case std_interval of
                 None \<Rightarrow> 1
               | Some sd \<Rightarrow> max 0 (min 1 (1 - sd / mean_interval)))
            else 0.5)))"

definition get_confidence_level :: "settings \<Rightarrow> real \<Rightarrow> PredictionConfidence" where
  "get_confidence_level cfg score =
     (if PREDICTION_CONFIDENCE_THRESHOLD cfg \<le> score then HIGH
      else if 0.5 \<le> score then MEDIUM
      else LOW)"

text \<open>
  \<open>df.sort_values('order_date')\<close> uses an unstable sort: the order of rows with equal
  instants is not specified. The forecaster is therefore modelled for any function
  \<open>srt\<close> in its place; \<open>date_sorting\<close> says what pandas guarantees of it, and
  \<open>sort_values\<close> is one such function.
\<close>

definition date_sorting :: "(order list \<Rightarrow> order list) \<Rightarrow> bool" where
  "date_sorting srt =
     (\<forall>df. mset (srt df) = mset df \<and> sorted (map order_date (srt df)))"

definition sort_values :: "order list \<Rightarrow> order list" where
  "sort_values df = sort_key order_date df"

text \<open>
  The body of the \<open>try\<close> block of \<open>predict_depletion\<close>, with \<open>date.today()\<close> as the
  ordinal \<open>today\<close>. \<open>df['order_date']\<close> raises \<open>KeyError\<close> on a frame made of no entry,
  and \<open>df.iloc[-1]\<close> raises \<open>IndexError\<close> on a frame without rows. An entry whose date
  pandas cannot read is outside this model: the entries are taken as read.
\<close>

definition predict_body ::
  "settings \<Rightarrow> (order list \<Rightarrow> order list) \<Rightarrow> int \<Rightarrow> string \<Rightarrow> string \<Rightarrow> order list
   \<Rightarrow> error + prediction option" where
  "predict_body cfg srt today uid mid order_history =
     (if int (length order_history) < PREDICTION_MIN_ORDERS cfg then Inr None
      else if order_history = [] then Inl KeyError
      else
        (let df = srt order_history;
             consumption_rate = calculate_consumption_rate df
         in
         if not_positive consumption_rate then Inr None
         else
           (if df = [] then Inl IndexError
            else
              (let last_order = last df;
                   last_date = to_date (order_date last_order);
                   last_quantity = order_quantity last_order;
                   days_to_deplete = divide_by (of_int last_quantity) consumption_rate
               in
               (case timedelta_days days_to_deplete of
                  Inl e \<Rightarrow> Inl e
                | Inr n \<Rightarrow>
                   (case date_add last_date n of
                      Inl e \<Rightarrow> Inl e
                    | Inr predicted \<Rightarrow>
                       (case date_add predicted (- 7) of
                          Inl e \<Rightarrow> Inl e
                        | Inr suggested \<Rightarrow>
                           (let score = forecast_confidence df;
                                recent_orders = map order_quantity (drop (length df - 3) df)
                            in
                            Inr (Some
                              \<lparr>user_id = uid,
                               medicine_id = mid,
                               medicine_name =
                                 (if list_all (\<lambda>row. order_medicine_name row = None) df then Some []
                                  else order_medicine_name last_order),
                               average_consumption_rate = float_round2 consumption_rate,
                               last_order_date = last_date,
                               last_order_quantity = last_quantity,
                               predicted_depletion_date = predicted,
                               suggested_reorder_date = max suggested today,
                               suggested_quantity = int_of_float (mean recent_orders),
                               confidence_level = get_confidence_level cfg score,
                               confidence_score = round2 score,
                               historical_data = order_history\<rparr>)))))))))"

text \<open>\<open>predict_depletion\<close>: the handler turns every exception into \<open>None\<close>.\<close>

definition predict_depletion ::
  "settings \<Rightarrow> (order list \<Rightarrow> order list) \<Rightarrow> int \<Rightarrow> string \<Rightarrow> string \<Rightarrow> order list
   \<Rightarrow> prediction option" where
  "predict_depletion cfg srt today uid mid order_history =
     (case predict_body cfg srt today uid mid order_history of
        Inl e \<Rightarrow> None
      | Inr result \<Rightarrow> result)"

text \<open>
  \<open>should_notify_user\<close>. Of the dictionary it is given, it reads the depletion date (a
  \<open>date\<close>, an ISO string, something else, or no such key) and the confidence.
  \<open>fromisoformat\<close> stands for \<open>datetime.fromisoformat(s).date()\<close>, which raises
  \<open>ValueError\<close> on a malformed string.
\<close>

datatype date_value = DateValue int | DateString string | OtherValue

record notify_input =
  depletion_date_entry :: "date_value option"
  confidence_entry :: "PredictionConfidence option"

definition should_notify_body ::
  "(string \<Rightarrow> int option) \<Rightarrow> int \<Rightarrow> notify_input \<Rightarrow> error + bool" where
  "should_notify_body fromisoformat today p =
     (case depletion_date_entry p of
        None \<Rightarrow> Inl KeyError
      | Some OtherValue \<Rightarrow> Inl TypeError
      | Some (DateString s) \<Rightarrow>
          (case fromisoformat s of
             None \<Rightarrow> Inl ValueError
           | Some d \<Rightarrow>
               Inr (d - today \<le> 7 \<and> 0 \<le> d - today \<and> confidence_entry p = Some HIGH))
      | Some (DateValue d) \<Rightarrow>
          Inr (d - today \<le> 7 \<and> 0 \<le> d - today \<and> confidence_entry p = Some HIGH))"

definition should_notify_user ::
  "(string \<Rightarrow> int option) \<Rightarrow> int \<Rightarrow> notify_input \<Rightarrow> bool" where
  "should_notify_user fromisoformat today p =
     (case should_notify_body fromisoformat today p of
        Inl e \<Rightarrow> False
      | Inr b \<Rightarrow> b)"

section \<open>Inputs and measures used by the theorems\<close>

text \<open>The number of digits of a message, and a message with a number of \<open>n\<close> nines.\<close>

definition digit_count :: "string \<Rightarrow> nat" where
  "digit_count s = length (filter is_digit s)"

definition long_number_message :: "nat \<Rightarrow> string" where
  "long_number_message n = ''tylenol '' @ replicate n (CHR ''9'') @ '' pills''"

text \<open>
  An order placed at midnight of the day of ordinal \<open>day\<close> (738886 is 2024-01-01), and a
  history of four orders of 60 units thirty days apart, given out of order.
\<close>

definition order_on :: "int \<Rightarrow> int \<Rightarrow> order" where
  "order_on day q =
     \<lparr>order_date = at_midnight day, order_quantity = q,
      order_medicine_name = Some ''Metformin''\<rparr>"

definition monthly :: "order list" where
  "monthly = [order_on 738976 60, order_on 738886 60, order_on 738946 60, order_on 738916 60]"

text \<open>A prediction without the copy of the caller's list.\<close>

definition without_history :: "prediction \<Rightarrow> prediction" where
  "without_history p = p\<lparr>historical_data := []\<rparr>"

section \<open>The parser returns on every message below the digit limit\<close>

lemma split_ws_nonempty: "w \<in> set (split_ws cur text) \<Longrightarrow> w \<noteq> []"
  by (induction "text" arbitrary: cur) (auto split: if_splits)

lemma guess_name_total: "\<forall>w \<in> set ws. w \<noteq> [] \<Longrightarrow> \<exists>r. guess_name ws = Inr r"
  by (induction ws) (auto simp: Let_def split: list.splits)

lemma extract_medicine_name_total: "\<exists>r. extract_medicine_name text = Inr r"
  using guess_name_total [of "split text"] split_ws_nonempty
  by (auto simp: extract_medicine_name_def split_def split: option.splits)

lemma py_int_total: "length ds \<le> 4300 \<Longrightarrow> \<exists>n. py_int ds = Inr n"
  by (simp add: py_int_def int_max_str_digits_def)

lemma takeWhile_digit_count: "length (takeWhile is_digit s) \<le> digit_count s"
  unfolding digit_count_def by (induction s) auto

lemma digit_count_Cons: "digit_count s \<le> digit_count (c # s)"
  by (simp add: digit_count_def)

lemma digit_count_dropWhile: "digit_count (dropWhile P s) \<le> digit_count s"
  unfolding digit_count_def by (induction s) auto

lemma digit_count_rev: "digit_count (rev s) = digit_count s"
  by (simp add: digit_count_def flip: rev_filter)

lemma digit_count_strip: "digit_count (strip s) \<le> digit_count s"
  unfolding strip_def digit_count_rev
  by (metis digit_count_dropWhile digit_count_rev le_trans)

lemma quantity_at_digits: "quantity_at s = Some ds \<Longrightarrow> length ds \<le> digit_count s"
  using takeWhile_digit_count [of s]
  by (auto simp: quantity_at_def Let_def split: if_splits option.splits)

lemma simple_quantity_at_digits:
  "simple_quantity_at prev s = Some ds \<Longrightarrow> length ds \<le> digit_count s"
  using takeWhile_digit_count [of s]
  by (auto simp: simple_quantity_at_def Let_def split: if_splits option.splits)

lemma quantity_search_digits:
  "re_search quantity_at text = Some ds \<Longrightarrow> length ds \<le> digit_count text"
proof (induction "text")
  case Nil
  then show ?case by (simp add: quantity_at_digits)
next
  case (Cons c cs)
  then show ?case
    using quantity_at_digits [of "c # cs" ds] digit_count_Cons [of cs c]
    by (auto split: option.splits)
qed

lemma simple_quantity_search_digits:
  "simple_quantity_search prev text = Some ds \<Longrightarrow> length ds \<le> digit_count text"
proof (induction "text" arbitrary: prev)
  case Nil
  then show ?case by simp
next
  case (Cons c cs)
  then show ?case
    using simple_quantity_at_digits [of prev "c # cs" ds] digit_count_Cons [of cs c]
    by (fastforce split: option.splits)
qed

lemma standalone_numbers_digits:
  "ds \<in> set (standalone_numbers prev text) \<Longrightarrow> length ds \<le> digit_count text"
proof (induction "text" arbitrary: prev)
  case Nil
  then show ?case by simp
next
  case (Cons c cs)
  have "is_digit c \<Longrightarrow> length (c # takeWhile is_digit cs) \<le> digit_count (c # cs)"
    using takeWhile_digit_count [of cs] by (simp add: digit_count_def)
  then show ?case
    using Cons digit_count_Cons [of cs c]
    by (fastforce split: if_splits)
qed

lemma map_result_total:
  "\<forall>x \<in> set xs. \<exists>y. f x = Inr y \<Longrightarrow> \<exists>ys. map_result f xs = Inr ys"
  by (induction xs) auto

lemma extract_quantity_total:
  assumes "digit_count text \<le> 4300"
  shows "\<exists>q. extract_quantity text = Inr q"
proof (cases "re_search quantity_at text")
  case (Some ds)
  then show ?thesis
    using quantity_search_digits [OF Some] assms py_int_total [of ds]
    by (auto simp: extract_quantity_def)
next
  case None
  note q = None
  show ?thesis
  proof (cases "simple_quantity_search None text")
    case (Some ds)
    then show ?thesis
      using simple_quantity_search_digits [OF Some] assms py_int_total [of ds] q
      by (auto simp: extract_quantity_def)
  next
    case None
    have "\<forall>ds \<in> set (standalone_numbers None text). \<exists>n. py_int ds = Inr n"
      using standalone_numbers_digits assms py_int_total by (meson le_trans)
    from map_result_total [OF this] obtain nums where
      "map_result py_int (standalone_numbers None text) = Inr nums" ..
    then show ?thesis
      using q None by (auto simp: extract_quantity_def split: option.splits)
  qed
qed

lemma re_split_digits:
  "seg \<in> set (re_split prev k text) \<Longrightarrow> digit_count seg \<le> digit_count text"
proof (induction "text" arbitrary: prev k seg)
  case Nil
  then show ?case by simp
next
  case (Cons c cs)
  show ?case
  proof (cases "0 < k")
    case True
    then show ?thesis
      using Cons digit_count_Cons [of cs c] by (fastforce)
  next
    case False
    show ?thesis
    proof (cases "separator_at prev (c # cs)")
      case (Some n)
      then show ?thesis
        using Cons False digit_count_Cons [of cs c]
        by (fastforce simp: digit_count_def)
    next
      case None
      obtain s ss where r: "re_split (Some c) 0 cs = s # ss"
        by (cases "re_split (Some c) 0 cs") (cases cs; auto split: if_splits option.splits list.splits)+
      have s: "digit_count s \<le> digit_count cs"
        using Cons.IH [of s "Some c" 0] r by simp
      have ss: "\<And>x. x \<in> set ss \<Longrightarrow> digit_count x \<le> digit_count cs"
        using Cons.IH [of _ "Some c" 0] r by simp
      from Cons.prems False None r have "seg = c # s \<or> seg \<in> set ss"
        by simp
      then show ?thesis
      proof
        assume "seg = c # s"
        then show ?thesis using s by (simp add: digit_count_def)
      next
        assume "seg \<in> set ss"
        from ss [OF this] show ?thesis
          using digit_count_Cons [of cs c] by (rule le_trans)
      qed
    qed
  qed
qed

lemma parse_segments_total:
  "\<forall>seg \<in> set segs. digit_count seg \<le> 4300 \<Longrightarrow> \<exists>meds. parse_segments segs = Inr meds"
proof (induction segs)
  case Nil
  then show ?case by simp
next
  case (Cons seg rest)
  then obtain meds where meds: "parse_segments rest = Inr meds" by auto
  have "digit_count (strip seg) \<le> 4300"
    using Cons.prems digit_count_strip [of seg] by (simp add: le_trans)
  from extract_quantity_total [OF this] obtain q where
    q: "extract_quantity (strip seg) = Inr q" ..
  from extract_medicine_name_total obtain r where
    r: "extract_medicine_name (strip seg) = Inr r" ..
  show ?case
    using meds q r by (simp add: Let_def split: option.splits)
qed

lemma parse_message_total:
  assumes "digit_count message \<le> 4300"
  shows "\<exists>r. parse_message message = Inr r"
proof -
  have "\<forall>seg \<in> set (re_split None 0 message). digit_count seg \<le> 4300"
    using re_split_digits assms by (meson le_trans)
  from parse_segments_total [OF this] show ?thesis
    by (auto simp: parse_message_def)
qed

section \<open>The parser on the messages of the specification\<close>

lemma paracetamol_value:
  "parse_message ''I need Paracetamol 500mg, 30 tablets'' =
     Inr \<lparr>medicines = [\<lparr>name = ''Paracetamol'', dosage = Some ''500mg'', quantity = 30,
                          form = ''tablet'', confidence = 0.8\<rparr>],
          requires_clarification = False,
          next_action = ''confirm'',
          overall_confidence = 0.8,
          response = ''I'll add Paracetamol 500mg 30 tablets to your cart. Would you like to add anything else or proceed to checkout?''\<rparr>"
  by code_simp

lemma want_aspirin_value:
  "parse_message ''I want Aspirin'' =
     Inr \<lparr>medicines = [\<lparr>name = ''Aspirin'', dosage = None, quantity = 30,
                          form = ''tablet'', confidence = 0.6\<rparr>],
          requires_clarification = False,
          next_action = ''confirm'',
          overall_confidence = 0.6,
          response = ''I'll add Aspirin 30 tablets to your cart. Is this correct, or would you like to modify it?''\<rparr>"
  by code_simp

text \<open>
  C1 (as stated, refuted): the greeting \<open>Hello!\<close> is answered by the literal result of
  the greeting test: the list of medicines is empty and \<open>requires_clarification\<close> is
  false.
\<close>

theorem hello_is_greeting_without_clarification:
  "parse_message ''Hello!'' =
     Inr \<lparr>medicines = [], requires_clarification = False, next_action = ''greet'',
          overall_confidence = 1, response = greeting_response\<rparr>"
  by code_simp

text \<open>
  The sentence of C1, \<open>I need something for headache\<close>, is a defect of the code and not
  its design: the greeting test looks for \<open>hi\<close> as a substring and finds it inside
  \<open>something\<close>, so the sentence is answered as a greeting, where the repository's
  \<open>test_phase2.py\<close> lists it as the unclear request that needs clarification. Without
  the greeting test the loop over the segments would not ask for clarification either:
  \<open>something\<close> contains \<open>g\<close>, which makes the word before it a medicine named
  \<open>Need\<close>.
\<close>

lemma headache_is_answered_as_greeting:
  "parse_message ''I need something for headache'' =
     Inr \<lparr>medicines = [], requires_clarification = False, next_action = ''greet'',
          overall_confidence = 1, response = greeting_response\<rparr>"
  by code_simp

lemma headache_greeting_token:
  "contains ''hi'' (lower ''I need something for headache'') = True
   \<and> contains ''hi'' ''something'' = True"
  by code_simp

lemma headache_segments:
  "parse_segments (re_split None 0 ''I need something for headache'') =
     Inr [\<lparr>name = ''Need'', dosage = None, quantity = 30, form = ''tablet'',
            confidence = 0.4\<rparr>]"
  by code_simp

text \<open>
  C1 (amended): \<open>parse_message\<close> returns on every message with at most 4300 digits, and
  for every message on which it returns, \<open>requires_clarification\<close> is true if and only
  if no medicine was extracted and the result is not the greeting; the greeting has no
  medicine.
\<close>

theorem requires_clarification_iff:
  "(digit_count message \<le> 4300 \<longrightarrow> (\<exists>r. parse_message message = Inr r))
   \<and> (\<forall>r. parse_message message = Inr r \<longrightarrow>
          requires_clarification r = (medicines r = [] \<and> next_action r \<noteq> ''greet'')
          \<and> (next_action r = ''greet'' \<longrightarrow> medicines r = []))"
  using parse_message_total [of message]
  by (auto simp: parse_message_def split: if_splits sum.splits)

theorem requires_clarification_iff_witness:
  "digit_count ''I want Aspirin'' \<le> 4300
   \<and> parse_message ''I want Aspirin'' =
     Inr \<lparr>medicines = [\<lparr>name = ''Aspirin'', dosage = None, quantity = 30,
                          form = ''tablet'', confidence = 0.6\<rparr>],
          requires_clarification = False,
          next_action = ''confirm'',
          overall_confidence = 0.6,
          response = ''I'll add Aspirin 30 tablets to your cart. Is this correct, or would you like to modify it?''\<rparr>
   \<and> requires_clarification (projr (parse_message ''I want Aspirin''))
       = (medicines (projr (parse_message ''I want Aspirin'')) = []
          \<and> next_action (projr (parse_message ''I want Aspirin'')) \<noteq> ''greet'')"
proof -
  have d: "digit_count ''I want Aspirin'' \<le> 4300"
    by (simp add: digit_count_def is_digit_def code_def)
  show ?thesis
    using requires_clarification_iff [of "''I want Aspirin''"] want_aspirin_value d
    by simp
qed

text \<open>
  C2 (as stated, refuted): the single request is named \<open>Paracetamol\<close>, the title-cased
  standard name, not \<open>paracetamol\<close>.
\<close>

theorem paracetamol_name_is_title_cased:
  "map name (medicines (projr (parse_message ''I need Paracetamol 500mg, 30 tablets'')))
     = [''Paracetamol'']
   \<and> ''Paracetamol'' \<noteq> ''paracetamol''"
  unfolding paracetamol_value by simp

text \<open>
  C2 (amended): for the input \<open>I need Paracetamol 500mg, 30 tablets\<close>, \<open>parse_message\<close>
  returns exactly one request, with name \<open>Paracetamol\<close>, dosage \<open>500mg\<close>, quantity 30,
  form \<open>tablet\<close> and confidence 0.8.
\<close>

theorem paracetamol_request:
  "map (\<lambda>m. (name m, dosage m, quantity m, form m))
       (medicines (projr (parse_message ''I need Paracetamol 500mg, 30 tablets'')))
     = [(''Paracetamol'', Some ''500mg'', 30, ''tablet'')]
   \<and> map confidence (medicines (projr (parse_message ''I need Paracetamol 500mg, 30 tablets'')))
     = [0.8]
   \<and> isl (parse_message ''I need Paracetamol 500mg, 30 tablets'') = False"
  unfolding paracetamol_value by simp

text \<open>
  C6 (the code departs from the claim): on \<open>Aspirin 0 tablets\<close> the unit-anchored
  pattern returns the number it matched without the range check of the last fallback,
  and the request has quantity 0.
\<close>

theorem zero_tablets_quantity:
  "parse_message ''Aspirin 0 tablets'' =
     Inr \<lparr>medicines = [\<lparr>name = ''Aspirin'', dosage = None, quantity = 0,
                          form = ''tablet'', confidence = 0.6\<rparr>],
          requires_clarification = False,
          next_action = ''confirm'',
          overall_confidence = 0.6,
          response = ''I'll add Aspirin 0 tablets to your cart. Is this correct, or would you like to modify it?''\<rparr>"
  by code_simp

text \<open>
  C10: the message \<open>Please send my usual order\<close> contains no greeting, no variant of the
  alias table and no dosage, and its capitalised first word becomes a medicine: the
  result has one request named \<open>Please\<close>, \<open>requires_clarification\<close> false and
  \<open>next_action\<close> \<open>confirm\<close>.
\<close>

theorem usual_order_parsed_as_medicine:
  "any_in greetings (lower ''Please send my usual order'') = False
   \<and> any_in (concat (map snd COMMON_MEDICINES)) (lower ''Please send my usual order'') = False
   \<and> extract_dosage ''Please send my usual order'' = None
   \<and> parse_message ''Please send my usual order'' =
       Inr \<lparr>medicines = [\<lparr>name = ''Please'', dosage = None, quantity = 30,
                            form = ''tablet'', confidence = 0.4\<rparr>],
            requires_clarification = False,
            next_action = ''confirm'',
            overall_confidence = 0.4,
            response = ''I'll add Please 30 tablets to your cart. Is this correct, or would you like to modify it?''\<rparr>"
  by code_simp

text \<open>
  The confidence of every request lies between 0 and 1.
\<close>

lemma calculate_confidence_bounds:
  "0 \<le> calculate_confidence n d q \<and> calculate_confidence n d q \<le> 1"
  by (simp add: calculate_confidence_def Let_def split: option.splits)

lemma parse_segments_confidence:
  "parse_segments segs = Inr meds \<Longrightarrow> m \<in> set meds
   \<Longrightarrow> 0 \<le> confidence m \<and> confidence m \<le> 1"
proof (induction segs arbitrary: meds)
  case Nil
  then show ?case by simp
next
  case (Cons seg rest)
  then show ?case
    using calculate_confidence_bounds
    by (auto simp: Let_def split: if_splits sum.splits option.splits)
qed

lemma confidence_in_unit_interval:
  "parse_message message = Inr r \<Longrightarrow> m \<in> set (medicines r)
   \<Longrightarrow> 0 \<le> confidence m \<and> confidence m \<le> 1"
  using parse_segments_confidence
  by (auto simp: parse_message_def split: if_splits sum.splits)

section \<open>A number beyond the digit limit\<close>

lemma contains_prefix: "prefix k s \<Longrightarrow> contains k s"
  by (cases s) auto

lemma any_in_member: "k \<in> set ks \<Longrightarrow> contains k s \<Longrightarrow> any_in ks s"
  by (induction ks) auto

lemma lower_long_number_message: "lower (long_number_message n) = long_number_message n"
  by (simp add: long_number_message_def lower_def lower_char_def is_upper_def code_def)

lemma long_number_message_names_medicine:
  "any_in [''paracetamol'', ''tylenol'', ''acetaminophen'', ''paracitamol''] (long_number_message n)"
  by (rule any_in_member [of "''tylenol''"]) (simp_all add: long_number_message_def contains_prefix)

lemma long_number_message_not_greeting: "is_greeting (lower (long_number_message n)) = False"
proof -
  have "any_in (concat (map snd COMMON_MEDICINES)) (long_number_message n)"
    by (rule any_in_member [of "''tylenol''"])
       (simp_all add: COMMON_MEDICINES_def long_number_message_def contains_prefix)
  then show ?thesis
    by (simp add: is_greeting_def lower_long_number_message)
qed

lemma separator_at_other:
  "c \<noteq> CHR ''a'' \<Longrightarrow> c \<noteq> CHR '','' \<Longrightarrow> separator_at prev (c # cs) = None"
  by (simp add: separator_at_def)

lemma re_split_no_separator:
  "CHR ''a'' \<notin> set s \<Longrightarrow> CHR '','' \<notin> set s \<Longrightarrow> re_split prev 0 s = [s]"
  by (induction s arbitrary: prev) (auto simp: separator_at_other)

lemma long_number_message_split:
  "re_split None 0 (long_number_message n) = [long_number_message n]"
  by (rule re_split_no_separator) (auto simp: long_number_message_def)

lemma strip_long_number_message: "strip (long_number_message n) = long_number_message n"
  by (simp add: strip_def long_number_message_def is_space_def code_def)

lemma long_number_message_known:
  "known_medicine COMMON_MEDICINES (long_number_message n) = Some ''paracetamol''"
  unfolding COMMON_MEDICINES_def
  by (subst known_medicine.simps)
     (simp only: long_number_message_names_medicine fst_conv snd_conv if_True)

lemma long_number_message_name:
  "extract_medicine_name (long_number_message n) = Inr (Some ''paracetamol'')"
  by (simp add: extract_medicine_name_def lower_long_number_message long_number_message_known)

lemma re_search_here: "m s = Some r \<Longrightarrow> re_search m s = Some r"
  by (cases s) auto

lemma quantity_at_no_digit: "\<not> is_digit c \<Longrightarrow> quantity_at (c # cs) = None"
  by (simp add: quantity_at_def)

lemma takeWhile_nines:
  "takeWhile is_digit (replicate n (CHR ''9'') @ '' pills'') = replicate n (CHR ''9'')"
  by (induction n) (simp_all add: is_digit_def code_def)

lemma dropWhile_nines:
  "dropWhile is_digit (replicate n (CHR ''9'') @ '' pills'') = '' pills''"
  by (induction n) (simp_all add: is_digit_def code_def)

lemma quantity_at_nines:
  "0 < n \<Longrightarrow> quantity_at (replicate n (CHR ''9'') @ '' pills'') = Some (replicate n (CHR ''9''))"
  by (simp add: quantity_at_def takeWhile_nines dropWhile_nines Let_def is_space_def code_def
      quantity_units_def match_alt_def lower_def lower_char_def is_upper_def)

lemma long_number_message_quantity:
  assumes "0 < n"
  shows "re_search quantity_at (long_number_message n) = Some (replicate n (CHR ''9''))"
proof -
  have "re_search quantity_at (replicate n (CHR ''9'') @ '' pills'') = Some (replicate n (CHR ''9''))"
    using quantity_at_nines [OF assms] by (rule re_search_here)
  then show ?thesis
    by (simp add: long_number_message_def quantity_at_no_digit is_digit_def code_def)
qed

lemma long_number_message_raises:
  assumes "4300 < n"
  shows "parse_message (long_number_message n) = Inl ValueError"
proof -
  have "0 < n" using assms by simp
  from long_number_message_quantity [OF this]
  have "extract_quantity (long_number_message n) = Inl ValueError"
    using assms by (simp add: extract_quantity_def py_int_def int_max_str_digits_def)
  moreover have "\<not> length (long_number_message n) < 3"
    by (simp add: long_number_message_def)
  ultimately have "parse_segments [long_number_message n] = Inl ValueError"
    by (simp add: strip_long_number_message long_number_message_name Let_def)
  then show ?thesis
    by (simp add: parse_message_def long_number_message_not_greeting long_number_message_split)
qed

section \<open>Arithmetic of the forecaster\<close>

lemma round_half_even_lower: "\<lfloor>y\<rfloor> \<le> round_half_even y"
  by (simp add: round_half_even_def Let_def)

lemma round_half_even_upper: "of_int (round_half_even y) \<le> y + 1 / 2"
  unfolding round_half_even_def Let_def
  by (auto; linarith)

lemma whole_days_lower: "\<lfloor>x\<rfloor> \<le> whole_days x"
proof -
  have "of_int (\<lfloor>x\<rfloor> * us_per_day) \<le> x * of_int us_per_day"
    by (simp add: us_per_day_def)
  then have "\<lfloor>x\<rfloor> * us_per_day \<le> \<lfloor>x * of_int us_per_day\<rfloor>"
    by (simp add: le_floor_iff)
  also have "\<dots> \<le> round_half_even (x * of_int us_per_day)"
    by (rule round_half_even_lower)
  finally have "(\<lfloor>x\<rfloor> * us_per_day) div us_per_day \<le> round_half_even (x * of_int us_per_day) div us_per_day"
    by (rule zdiv_mono1) (simp add: us_per_day_def)
  then show ?thesis
    by (simp add: whole_days_def us_per_day_def)
qed

lemma whole_days_upper: "whole_days x \<le> \<lfloor>x + 1 / 172800000000\<rfloor>"
proof -
  let ?k = "round_half_even (x * of_int us_per_day)"
  have "real_of_int (?k div us_per_day) \<le> of_int ?k / of_int us_per_day"
    by (metis floor_divide_of_int_eq of_int_floor_le)
  also have "\<dots> \<le> (x * of_int us_per_day + 1 / 2) / of_int us_per_day"
    using round_half_even_upper [of "x * of_int us_per_day"]
    by (simp add: us_per_day_def divide_right_mono)
  also have "\<dots> = x + 1 / 172800000000"
    by (simp add: us_per_day_def field_simps)
  finally show ?thesis
    by (simp add: whole_days_def le_floor_iff)
qed

lemma int_of_float_mean:
  "int_of_float (mean qs) = sgn (sum_list qs) * (\<bar>sum_list qs\<bar> div int (length qs))"
proof (cases "0 \<le> sum_list qs")
  case True
  have "\<lfloor>real_of_int (sum_list qs) / real_of_int (int (length qs))\<rfloor> = sum_list qs div int (length qs)"
    by (rule floor_divide_of_int_eq)
  with True show ?thesis
    by (cases "sum_list qs = 0") (simp_all add: int_of_float_def mean_def)
next
  case False
  then have neg: "sum_list qs < 0" by simp
  have "\<lceil>real_of_int (sum_list qs) / real (length qs)\<rceil> = - \<lfloor>real_of_int (- sum_list qs) / real_of_int (int (length qs))\<rfloor>"
    by (simp add: ceiling_def)
  also have "\<dots> = - ((- sum_list qs) div int (length qs))"
    by (simp only: floor_divide_of_int_eq)
  finally have c: "\<lceil>real_of_int (sum_list qs) / real (length qs)\<rceil> = - ((- sum_list qs) div int (length qs))" .
  have "real_of_int (sum_list qs) / real (length qs) \<le> 0"
    using neg by (simp add: divide_nonpos_nonneg)
  then have "int_of_float (mean qs) = \<lceil>real_of_int (sum_list qs) / real (length qs)\<rceil>"
    unfolding int_of_float_def mean_def
    by (smt (verit) ceiling_zero floor_zero)
  with c neg show ?thesis by simp
qed

section \<open>The forecaster\<close>

lemma date_sorting_sort_values: "date_sorting sort_values"
  by (simp add: date_sorting_def sort_values_def)

lemma date_sorting_unique:
  assumes "date_sorting srt" "distinct (map order_date h)" "mset h' = mset h"
  shows "srt h' = srt h"
proof -
  have m: "mset (srt h') = mset (srt h)"
    using assms(1,3) by (simp add: date_sorting_def)
  have s: "sorted (map order_date (srt h'))" "sorted (map order_date (srt h))"
    using assms(1) by (simp_all add: date_sorting_def)
  have mh: "mset (map order_date (srt h)) = mset (map order_date h)"
    using assms(1) by (simp add: date_sorting_def)
  have mh': "mset (map order_date (srt h')) = mset (map order_date h)"
    using assms(1,3) by (simp add: date_sorting_def)
  have d: "distinct (map order_date (srt h))" "distinct (map order_date (srt h'))"
    using assms(2) mh mh' by (metis mset_eq_imp_distinct_iff)+
  have inj: "inj_on order_date (set (srt h') \<union> set (srt h))"
    using d m by (metis distinct_map mset_eq_setD sup.idem)
  have st: "set (srt h') = set (srt h)"
    using m by (rule mset_eq_setD)
  show ?thesis
    using map_sorted_distinct_set_unique [OF inj s(1) d(2) s(2) d(1) st] .
qed

lemmas forecast_eval = predict_depletion_def predict_body_def default_settings_def sort_values_def order_on_def at_midnight_def
  calculate_consumption_rate_def td_days_def to_date_def ns_per_day_def float_div_def float_mean_def
  timedelta_days_def whole_days_def date_add_def max_ordinal_def us_per_day_def round_half_even_def round2_def int_of_float_def
  mean_def sample_std_def forecast_confidence_def get_confidence_level_def Let_def

lemma predict_depletion_Some:
  assumes "predict_depletion cfg srt today uid mid h = Some p"
  shows "\<exists>n. timedelta_days (divide_by (of_int (order_quantity (last (srt h))))
                   (calculate_consumption_rate (srt h))) = Inr n
         \<and> last_order_date p = to_date (order_date (last (srt h)))
         \<and> last_order_quantity p = order_quantity (last (srt h))
         \<and> predicted_depletion_date p = last_order_date p + n
         \<and> suggested_reorder_date p = max (predicted_depletion_date p - 7) today
         \<and> suggested_quantity p =
             int_of_float (mean (map order_quantity (drop (length (srt h) - 3) (srt h))))
         \<and> average_consumption_rate p = float_round2 (calculate_consumption_rate (srt h))
         \<and> \<not> not_positive (calculate_consumption_rate (srt h))"
  using assms
  unfolding predict_depletion_def predict_body_def Let_def date_add_def
  by (auto split: sum.splits if_splits list.splits)

lemma is_positive_cases:
  "is_positive x \<Longrightarrow> (\<exists>r. x = Fin r \<and> 0 < r) \<or> x = PosInf"
  by (cases x) auto

lemma timedelta_days_positive_rate:
  assumes "is_positive rate"
  shows "timedelta_days (divide_by q rate) = Inl OverflowError
         \<or> (\<exists>n. timedelta_days (divide_by q rate) = Inr n)"
proof -
  from is_positive_cases [OF assms] obtain d where "divide_by q rate = Fin d"
    by (auto simp: float_div_def)
  then show ?thesis
    by (simp add: timedelta_days_def Let_def)
qed

lemma date_add_cases:
  "date_add d n = Inl OverflowError \<or> date_add d n = Inr (d + n)"
  by (simp add: date_add_def)

lemma positive_rate_two_rows:
  "is_positive (calculate_consumption_rate df) \<Longrightarrow> 2 \<le> length df"
  by (auto simp: calculate_consumption_rate_def split: if_splits)

lemma date_sorting_length: "date_sorting srt \<Longrightarrow> length (srt h) = length h"
  by (metis date_sorting_def size_mset)

lemma is_positive_not_not_positive: "is_positive x \<Longrightarrow> \<not> not_positive x"
  by (cases x) auto

lemma monthly_prediction:
  "predict_depletion default_settings sort_values 738990 ''u1'' ''m1'' monthly =
     Some \<lparr>user_id = ''u1'', medicine_id = ''m1'', medicine_name = Some ''Metformin'',
           average_consumption_rate = Fin 2, last_order_date = 738976,
           last_order_quantity = 60, predicted_depletion_date = 739006,
           suggested_reorder_date = 738999, suggested_quantity = 60,
           confidence_level = HIGH, confidence_score = 1, historical_data = monthly\<rparr>"
  by (simp add: monthly_def forecast_eval)

lemma monthly_rate: "calculate_consumption_rate (sort_values monthly) = Fin 2"
  by (simp add: monthly_def forecast_eval)

lemma monthly_body:
  "predict_body default_settings sort_values 738990 ''u1'' ''m1'' monthly \<noteq> Inl OverflowError"
  by (simp add: monthly_def forecast_eval)

text \<open>Without a valid interval there is no prediction.\<close>

lemma no_valid_interval_no_prediction:
  assumes "filter is_positive (filter (\<lambda>x. x \<noteq> NaN) (daily_consumption (srt h))) = []"
  shows "predict_depletion cfg srt today uid mid h = None"
proof -
  have "calculate_consumption_rate (srt h) = Fin 0"
    using assms by (simp add: calculate_consumption_rate_def)
  then show ?thesis
    by (simp add: predict_depletion_def predict_body_def)
qed

text \<open>
  C3 (the code departs from the claim): two orders on the same day and a third thirty
  days later. The interval of zero days has the rate \<open>60 / 0\<close>, an infinity, which is
  neither NaN nor at most zero: it is kept, the mean is infinite, and the prediction
  carries an infinite rate and a depletion date equal to the last order date. The claim
  discards the interval and gives the rate 2.0.
\<close>

theorem same_day_orders_give_infinite_rate:
  "daily_consumption (sort_values [order_on 738886 60, order_on 738886 60, order_on 738916 60])
     = [PosInf, Fin 2]
   \<and> calculate_consumption_rate
       (sort_values [order_on 738886 60, order_on 738886 60, order_on 738916 60]) = PosInf
   \<and> map_option average_consumption_rate
       (predict_depletion default_settings sort_values 738900 ''u1'' ''m1''
          [order_on 738886 60, order_on 738886 60, order_on 738916 60]) = Some PosInf
   \<and> map_option predicted_depletion_date
       (predict_depletion default_settings sort_values 738900 ''u1'' ''m1''
          [order_on 738886 60, order_on 738886 60, order_on 738916 60]) = Some 738916"
  by (simp add: forecast_eval)

text \<open>
  C4 (as stated, refuted): three orders of 60 units thirty days apart, read long after
  the supply ran out. The rate is positive, the depletion date is 738976 and the
  suggested reorder date is today, 739000, later than the depletion date.
\<close>

theorem past_depletion_reorder_after_depletion:
  "calculate_consumption_rate
       (sort_values [order_on 738886 60, order_on 738916 60, order_on 738946 60]) = Fin 2
   \<and> map_option predicted_depletion_date
       (predict_depletion default_settings sort_values 739000 ''u1'' ''m1''
          [order_on 738886 60, order_on 738916 60, order_on 738946 60]) = Some 738976
   \<and> map_option suggested_reorder_date
       (predict_depletion default_settings sort_values 739000 ''u1'' ''m1''
          [order_on 738886 60, order_on 738916 60, order_on 738946 60]) = Some 739000
   \<and> (738976 :: int) < 739000"
  by (simp add: forecast_eval)

text \<open>
  C4 (amended): for every history with at least \<open>PREDICTION_MIN_ORDERS\<close> entries and a
  strictly positive consumption rate, on which the date arithmetic does not overflow,
  \<open>predict_depletion\<close> returns a prediction whose suggested reorder date is the
  depletion date minus seven days, raised to today; it is never before today, and it is
  at most the depletion date exactly when the depletion date is not before today.
\<close>

theorem reorder_date_clamped:
  assumes srt: "date_sorting srt"
      and enough: "PREDICTION_MIN_ORDERS cfg \<le> int (length h)"
      and rate: "is_positive (calculate_consumption_rate (srt h))"
      and range: "predict_body cfg srt today uid mid h \<noteq> Inl OverflowError"
  shows "\<exists>p. predict_depletion cfg srt today uid mid h = Some p
             \<and> suggested_reorder_date p = max (predicted_depletion_date p - 7) today
             \<and> today \<le> suggested_reorder_date p
             \<and> (suggested_reorder_date p \<le> predicted_depletion_date p)
                 = (today \<le> predicted_depletion_date p)"
proof -
  let ?df = "srt h"
  have len: "2 \<le> length h"
    using positive_rate_two_rows [OF rate] date_sorting_length [OF srt] by simp
  then have ne: "h \<noteq> []" "?df \<noteq> []"
    using date_sorting_length [OF srt, of h] by auto
  have np: "\<not> not_positive (calculate_consumption_rate ?df)"
    using rate by (rule is_positive_not_not_positive)
  let ?x = "divide_by (of_int (order_quantity (last ?df))) (calculate_consumption_rate ?df)"
  from timedelta_days_positive_rate [OF rate, of "of_int (order_quantity (last ?df))"]
  show ?thesis
  proof
    assume "timedelta_days ?x = Inl OverflowError"
    then have "predict_body cfg srt today uid mid h = Inl OverflowError"
      using enough ne np by (simp add: predict_body_def Let_def)
    with range show ?thesis by simp
  next
    assume "\<exists>n. timedelta_days ?x = Inr n"
    then obtain n where n: "timedelta_days ?x = Inr n" ..
    let ?d = "to_date (order_date (last ?df))"
    from date_add_cases [of ?d n] show ?thesis
    proof
      assume "date_add ?d n = Inl OverflowError"
      then have "predict_body cfg srt today uid mid h = Inl OverflowError"
        using enough ne np n by (simp add: predict_body_def Let_def)
      with range show ?thesis by simp
    next
      assume d1: "date_add ?d n = Inr (?d + n)"
      from date_add_cases [of "?d + n" "- 7"] show ?thesis
      proof
        assume "date_add (?d + n) (- 7) = Inl OverflowError"
        then have "predict_body cfg srt today uid mid h = Inl OverflowError"
          using enough ne np n d1 by (simp add: predict_body_def Let_def)
        with range show ?thesis by simp
      next
        assume d2: "date_add (?d + n) (- 7) = Inr (?d + n + - 7)"
        show ?thesis
          using enough ne np n d1 d2
          by (simp add: predict_depletion_def predict_body_def Let_def)
      qed
    qed
  qed
qed

theorem reorder_date_clamped_witness:
  "date_sorting sort_values
   \<and> PREDICTION_MIN_ORDERS default_settings \<le> int (length monthly)
   \<and> is_positive (calculate_consumption_rate (sort_values monthly))
   \<and> predict_body default_settings sort_values 738990 ''u1'' ''m1'' monthly \<noteq> Inl OverflowError
   \<and> (\<exists>p. predict_depletion default_settings sort_values 738990 ''u1'' ''m1'' monthly = Some p
          \<and> suggested_reorder_date p = max (predicted_depletion_date p - 7) 738990
          \<and> 738990 \<le> suggested_reorder_date p
          \<and> (suggested_reorder_date p \<le> predicted_depletion_date p)
              = (738990 \<le> predicted_depletion_date p))"
proof -
  have a: "PREDICTION_MIN_ORDERS default_settings \<le> int (length monthly)"
    by (simp add: default_settings_def monthly_def)
  have b: "is_positive (calculate_consumption_rate (sort_values monthly))"
    by (simp add: monthly_rate)
  show ?thesis
    using reorder_date_clamped [OF date_sorting_sort_values a b monthly_body]
      date_sorting_sort_values a b monthly_body
    by blast
qed

text \<open>
  C7 (as stated, refuted): the prediction carries the caller's list as it was given, so
  a history and its reversal give different outputs.
\<close>

theorem history_echoed_in_caller_order:
  "mset (rev monthly) = mset monthly
   \<and> map_option historical_data
       (predict_depletion default_settings sort_values 738990 ''u1'' ''m1'' monthly)
     = Some [order_on 738976 60, order_on 738886 60, order_on 738946 60, order_on 738916 60]
   \<and> map_option historical_data
       (predict_depletion default_settings sort_values 738990 ''u1'' ''m1'' (rev monthly))
     = Some [order_on 738916 60, order_on 738946 60, order_on 738886 60, order_on 738976 60]
   \<and> [order_on 738976 60, order_on 738886 60, order_on 738946 60, order_on 738916 60]
     \<noteq> [order_on 738916 60, order_on 738946 60, order_on 738886 60, order_on 738976 60]"
  by (simp add: monthly_def forecast_eval)

text \<open>
  With two orders at the same instant the rows keep the order the sort leaves them in;
  under \<open>sort_values\<close>, which keeps the caller's order of equal instants, the last
  order, and with it the prediction, depends on the caller's order.
\<close>

lemma equal_instants_follow_caller_order:
  "map_option last_order_quantity
       (predict_depletion default_settings sort_values 738990 ''u1'' ''m1''
          [order_on 738886 60, order_on 738916 60, order_on 738946 30, order_on 738946 90])
     = Some 90
   \<and> map_option last_order_quantity
       (predict_depletion default_settings sort_values 738990 ''u1'' ''m1''
          [order_on 738886 60, order_on 738916 60, order_on 738946 90, order_on 738946 30])
     = Some 30"
  by (simp add: forecast_eval)

text \<open>
  C7 (amended): for every order history whose order instants are pairwise distinct and
  every permutation of it, \<open>predict_depletion\<close> returns the same output on both in
  every field other than \<open>historical_data\<close>.
\<close>

theorem prediction_independent_of_input_order:
  assumes srt: "date_sorting srt"
      and dist: "distinct (map order_date h)"
      and perm: "mset h' = mset h"
  shows "map_option without_history (predict_depletion cfg srt today uid mid h')
         = map_option without_history (predict_depletion cfg srt today uid mid h)"
proof -
  have eq: "srt h' = srt h"
    using srt dist perm by (rule date_sorting_unique)
  have len: "length h' = length h"
    using perm by (metis size_mset)
  have emp: "(h' = []) = (h = [])"
    using len by auto
  show ?thesis
    unfolding predict_depletion_def predict_body_def Let_def eq len emp
    by (simp add: without_history_def split: sum.splits)
qed

theorem prediction_independent_of_input_order_witness:
  "date_sorting sort_values
   \<and> distinct (map order_date monthly)
   \<and> mset (rev monthly) = mset monthly
   \<and> map_option without_history
        (predict_depletion default_settings sort_values 738990 ''u1'' ''m1'' (rev monthly))
      = map_option without_history
        (predict_depletion default_settings sort_values 738990 ''u1'' ''m1'' monthly)"
proof -
  have d: "distinct (map order_date monthly)"
    by (simp add: monthly_def order_on_def at_midnight_def ns_per_day_def)
  have m: "mset (rev monthly) = mset monthly"
    by simp
  show ?thesis
    using prediction_independent_of_input_order [OF date_sorting_sort_values d m]
      date_sorting_sort_values d m
    by blast
qed

text \<open>
  C8 (as stated, refuted): the last order has 7 units and the rate is 4 units a day;
  1.75 days are counted as one day, not two.
\<close>

theorem depletion_date_rounds_down:
  "calculate_consumption_rate
       (sort_values [order_on 738886 40, order_on 738896 40, order_on 738906 7]) = Fin 4
   \<and> map_option last_order_date
       (predict_depletion default_settings sort_values 738900 ''u1'' ''m1''
          [order_on 738886 40, order_on 738896 40, order_on 738906 7]) = Some 738906
   \<and> map_option predicted_depletion_date
       (predict_depletion default_settings sort_values 738900 ''u1'' ''m1''
          [order_on 738886 40, order_on 738896 40, order_on 738906 7]) = Some 738907
   \<and> 738906 + round (7 / 4 :: real) = (738908 :: int)"
  by (simp add: forecast_eval round_def)

text \<open>
  C8 (amended): for every prediction, the depletion date is the last order date plus the
  whole days of \<open>last_order_quantity / rate\<close>, where the rate is the consumption rate
  before it is rounded for output (an infinite rate gives zero days): the quotient is
  rounded to the microsecond and then down to whole days, so it is the floor of the
  quotient unless the quotient is within half a microsecond of the next day.
\<close>

theorem depletion_date_whole_days:
  assumes "predict_depletion cfg srt today uid mid h = Some p"
  shows "\<exists>x. divide_by (of_int (last_order_quantity p)) (calculate_consumption_rate (srt h)) = Fin x
           \<and> predicted_depletion_date p = last_order_date p + whole_days x
           \<and> \<lfloor>x\<rfloor> \<le> whole_days x
           \<and> whole_days x \<le> \<lfloor>x + 1 / 172800000000\<rfloor>"
proof -
  from predict_depletion_Some [OF assms] obtain n where
    n: "timedelta_days (divide_by (of_int (last_order_quantity p))
          (calculate_consumption_rate (srt h))) = Inr n"
    and d: "predicted_depletion_date p = last_order_date p + n"
    by auto
  from n obtain x where
    x: "divide_by (of_int (last_order_quantity p)) (calculate_consumption_rate (srt h)) = Fin x"
    and nx: "n = whole_days x"
    by (auto simp: timedelta_days_def Let_def split: pyfloat.splits if_splits)
  show ?thesis
    using x nx d whole_days_lower [of x] whole_days_upper [of x] by simp
qed

theorem depletion_date_whole_days_witness:
  "predict_depletion default_settings sort_values 738990 ''u1'' ''m1'' monthly =
     Some \<lparr>user_id = ''u1'', medicine_id = ''m1'', medicine_name = Some ''Metformin'',
           average_consumption_rate = Fin 2, last_order_date = 738976,
           last_order_quantity = 60, predicted_depletion_date = 739006,
           suggested_reorder_date = 738999, suggested_quantity = 60,
           confidence_level = HIGH, confidence_score = 1, historical_data = monthly\<rparr>
   \<and> (\<exists>x. divide_by 60 (calculate_consumption_rate (sort_values monthly)) = Fin x
           \<and> (739006 :: int) = 738976 + whole_days x
           \<and> \<lfloor>x\<rfloor> \<le> whole_days x
           \<and> whole_days x \<le> \<lfloor>x + 1 / 172800000000\<rfloor>)"
  using depletion_date_whole_days [OF monthly_prediction] monthly_prediction
  by simp

text \<open>
  C9 (as stated, refuted): the last three orders have 10, 10 and 15 units; the mean
  11.67 gives the suggested quantity 11, not 12.
\<close>

theorem suggested_quantity_rounds_toward_zero:
  "map_option suggested_quantity
       (predict_depletion default_settings sort_values 738900 ''u1'' ''m1''
          [order_on 738886 10, order_on 738896 10, order_on 738906 15]) = Some 11
   \<and> round ((10 + 10 + 15) / 3 :: real) = (12 :: int)"
  by (simp add: forecast_eval round_def)

text \<open>
  C9 (amended): for every prediction, the suggested quantity is the mean of the
  quantities of the last three rows of the sorted history (fewer if it is shorter),
  truncated toward zero.
\<close>

theorem suggested_quantity_truncated_mean:
  assumes "predict_depletion cfg srt today uid mid h = Some p"
  shows "suggested_quantity p
           = int_of_float (mean (map order_quantity (drop (length (srt h) - 3) (srt h))))
         \<and> suggested_quantity p
           = sgn (sum_list (map order_quantity (drop (length (srt h) - 3) (srt h))))
             * (\<bar>sum_list (map order_quantity (drop (length (srt h) - 3) (srt h)))\<bar>
                div int (length (drop (length (srt h) - 3) (srt h))))"
  using predict_depletion_Some [OF assms]
    int_of_float_mean [of "map order_quantity (drop (length (srt h) - 3) (srt h))"]
  by auto

theorem suggested_quantity_truncated_mean_witness:
  "predict_depletion default_settings sort_values 738990 ''u1'' ''m1'' monthly =
     Some \<lparr>user_id = ''u1'', medicine_id = ''m1'', medicine_name = Some ''Metformin'',
           average_consumption_rate = Fin 2, last_order_date = 738976,
           last_order_quantity = 60, predicted_depletion_date = 739006,
           suggested_reorder_date = 738999, suggested_quantity = 60,
           confidence_level = HIGH, confidence_score = 1, historical_data = monthly\<rparr>
   \<and> (60 :: int)
       = sgn (sum_list (map order_quantity
                (drop (length (sort_values monthly) - 3) (sort_values monthly))))
         * (\<bar>sum_list (map order_quantity
                (drop (length (sort_values monthly) - 3) (sort_values monthly)))\<bar>
            div int (length (drop (length (sort_values monthly) - 3) (sort_values monthly))))"
  using suggested_quantity_truncated_mean [OF monthly_prediction] monthly_prediction
  by simp

section \<open>Exceptions\<close>

text \<open>
  C5 (as stated, refuted): \<open>parse_message\<close> has no handler, and \<open>int\<close> raises
  \<open>ValueError\<close> through it on a number of 4301 digits.
\<close>

theorem number_beyond_digit_limit_raises:
  "parse_message (''tylenol '' @ replicate 4301 (CHR ''9'') @ '' pills'') = Inl ValueError"
  using long_number_message_raises [of 4301] unfolding long_number_message_def by simp

lemma monthly_big_overflow:
  "predict_body default_settings sort_values 738900 ''u1'' ''m1''
     [order_on 738886 30, order_on 738916 30, order_on 738946 3000000] = Inl OverflowError"
  by (simp add: forecast_eval)

lemma malformed_date_raises:
  "should_notify_body (\<lambda>s. None) 738900
     \<lparr>depletion_date_entry = Some (DateString ''soon''), confidence_entry = Some HIGH\<rparr>
   = Inl ValueError"
  by (simp add: should_notify_body_def)

text \<open>
  C5 (amended): \<open>parse_message\<close> returns a result for every message with at most 4300
  digits; \<open>predict_depletion\<close> returns none whenever its body raises, and
  \<open>should_notify_user\<close> returns false whenever its body raises.
\<close>

theorem exceptions_handled:
  "(digit_count message \<le> 4300 \<longrightarrow> (\<exists>r. parse_message message = Inr r))
   \<and> (predict_body cfg srt today uid mid h = Inl e
        \<longrightarrow> predict_depletion cfg srt today uid mid h = None)
   \<and> (should_notify_body parse_iso today0 p = Inl e2
        \<longrightarrow> should_notify_user parse_iso today0 p = False)"
  using parse_message_total [of message]
  by (simp add: predict_depletion_def should_notify_user_def)

theorem exceptions_handled_witness:
  "digit_count ''I want Aspirin'' \<le> 4300
   \<and> (\<exists>r. parse_message ''I want Aspirin'' = Inr r)
   \<and> predict_body default_settings sort_values 738900 ''u1'' ''m1''
        [order_on 738886 30, order_on 738916 30, order_on 738946 3000000] = Inl OverflowError
   \<and> predict_depletion default_settings sort_values 738900 ''u1'' ''m1''
        [order_on 738886 30, order_on 738916 30, order_on 738946 3000000] = None
   \<and> should_notify_body (\<lambda>s. None) 738900
        \<lparr>depletion_date_entry = Some (DateString ''soon''), confidence_entry = Some HIGH\<rparr>
      = Inl ValueError
   \<and> should_notify_user (\<lambda>s. None) 738900
        \<lparr>depletion_date_entry = Some (DateString ''soon''), confidence_entry = Some HIGH\<rparr>
      = False"
proof -
  have d: "digit_count ''I want Aspirin'' \<le> 4300"
    by (simp add: digit_count_def is_digit_def code_def)
  show ?thesis
    using exceptions_handled [of "''I want Aspirin''" default_settings sort_values 738900
        "''u1''" "''m1''" "[order_on 738886 30, order_on 738916 30, order_on 738946 3000000]"
        OverflowError "\<lambda>s. None" 738900
        "\<lparr>depletion_date_entry = Some (DateString ''soon''), confidence_entry = Some HIGH\<rparr>"
        ValueError]
      d monthly_big_overflow malformed_date_raises
    by simp
qed

end
